theory Spec2Isabelle
  imports Complex_Main
begin

section \<open>Errors\<close>

text \<open>
  The exceptions the pattern fitter can raise.  \<open>CoordinateOutOfRangeException\<close> is the
  one class imported from \<open>pax.exceptions\<close>; its argument records which \<open>raise\<close>
  statement built the message (the message text itself is a formatted string).
  The other constructors are the built-in Python exceptions that the modelled
  statements can raise.
\<close>

datatype message =
    NotInAllowedRange real real real
  | OnlyZeros "real list"

datatype error =
    CoordinateOutOfRangeException message
  | ValueError
  | IndexError
  | SyntaxError
  | ZeroDivisionError

section \<open>Coordinate axes\<close>

text \<open>
  \<open>CoordinateData = namedtuple('CoordinateData', ('minimum', 'maximum', 'n_bins', 'bin_spacing'))\<close>.
  Floating-point coordinates are idealised as exact reals.
\<close>

record CoordinateData =
  minimum :: real
  maximum :: real
  n_bins :: int
  bin_spacing :: real

text \<open>
  The loop of \<open>__init__\<close> that fills \<open>self.coordinate_data\<close>:
  \<open>n_bins *= zoom_factor\<close>, \<open>bin_spacing = (stop - start) / n_bins\<close> (true division,
  which raises on a zero divisor).
\<close>

definition make_coordinate_data :: "real \<Rightarrow> real \<Rightarrow> int \<Rightarrow> int \<Rightarrow> error + CoordinateData" where
  "make_coordinate_data start stop nb zoom_factor =
     (let n = nb * zoom_factor in
      if n = 0 then Inl ZeroDivisionError
      else Inr \<lparr>minimum = start, maximum = stop, n_bins = n,
                 bin_spacing = (stop - start) / real_of_int n\<rparr>)"

fun coordinate_data_init :: "(string \<times> real \<times> real \<times> int) list \<Rightarrow> int \<Rightarrow> error + CoordinateData list" where
  "coordinate_data_init [] zoom_factor = Inr []"
| "coordinate_data_init ((name, start, stop, nb) # rest) zoom_factor =
     (case make_coordinate_data start stop nb zoom_factor of
        Inl e \<Rightarrow> Inl e
      | Inr cd \<Rightarrow> (case coordinate_data_init rest zoom_factor of
                    Inl e \<Rightarrow> Inl e
                  | Inr cds \<Rightarrow> Inr (cd # cds)))"

text \<open>Python's \<open>int(x)\<close> on a finite float truncates towards zero.\<close>

definition py_int :: "real \<Rightarrow> int" where
  "py_int x = (if 0 \<le> x then \<lfloor>x\<rfloor> else \<lceil>x\<rceil>)"

text \<open>\<open>xs[i]\<close> for a list and a non-negative index produced by \<open>enumerate\<close>.\<close>

definition list_get :: "'a list \<Rightarrow> nat \<Rightarrow> error + 'a" where
  "list_get xs i = (if i < length xs then Inr (xs ! i) else Inl IndexError)"

text \<open>
  \<open>_get_bin_index(self, value, dimension_i)\<close>, on the axis list of the fitter.
\<close>

definition get_bin_index :: "CoordinateData list \<Rightarrow> real \<Rightarrow> nat \<Rightarrow> error + int" where
  "get_bin_index cds v dimension_i =
     (case list_get cds dimension_i of
        Inl e \<Rightarrow> Inl e
      | Inr cd \<Rightarrow>
          if \<not> (minimum cd \<le> v \<and> v \<le> maximum cd)
          then Inl (CoordinateOutOfRangeException (NotInAllowedRange v (minimum cd) (maximum cd)))
          else if bin_spacing cd = 0 then Inl ZeroDivisionError
          else Inr (py_int ((v - minimum cd) / bin_spacing cd)))"

text \<open>\<open>_get_bin_center(self, bin_i, dimension_i)\<close>.\<close>

definition get_bin_center :: "CoordinateData list \<Rightarrow> int \<Rightarrow> nat \<Rightarrow> error + real" where
  "get_bin_center cds bin_i dimension_i =
     (case list_get cds dimension_i of
        Inl e \<Rightarrow> Inl e
      | Inr cd \<Rightarrow> Inr (minimum cd + bin_spacing cd * (real_of_int bin_i + 0.5)))"

text \<open>
  An axis as the constructor builds it from a template with \<open>start < stop\<close> and a
  positive number of bins.
\<close>

definition axis_ok :: "CoordinateData \<Rightarrow> bool" where
  "axis_ok cd \<longleftrightarrow>
     minimum cd < maximum cd \<and> 0 < n_bins cd \<and>
     bin_spacing cd = (maximum cd - minimum cd) / real_of_int (n_bins cd)"

section \<open>Floating-point values\<close>

text \<open>
  The values that numpy and numexpr compute with.  Finite floats are idealised as exact
  reals (no rounding, no overflow); the three special values are kept, because numpy
  and numexpr divide by zero without raising.  Signed zeros are not represented: a zero
  divisor counts as \<open>+0.0\<close>.
\<close>

datatype fl = Fin real | PInf | NInf | NaN

fun fneg :: "fl \<Rightarrow> fl" where
  "fneg (Fin a) = Fin (- a)"
| "fneg PInf = NInf"
| "fneg NInf = PInf"
| "fneg NaN = NaN"

fun fadd :: "fl \<Rightarrow> fl \<Rightarrow> fl" where
  "fadd (Fin a) (Fin b) = Fin (a + b)"
| "fadd NaN y = NaN"
| "fadd x NaN = NaN"
| "fadd PInf NInf = NaN"
| "fadd NInf PInf = NaN"
| "fadd PInf y = PInf"
| "fadd x PInf = PInf"
| "fadd NInf y = NInf"
| "fadd x NInf = NInf"

definition fsub :: "fl \<Rightarrow> fl \<Rightarrow> fl" where
  "fsub x y = fadd x (fneg y)"

text \<open>The product of an infinity with a finite factor \<open>a\<close>.\<close>

definition inf_times :: "fl \<Rightarrow> real \<Rightarrow> fl" where
  "inf_times i a = (if a = 0 then NaN else if 0 < a then i else fneg i)"

fun fmul :: "fl \<Rightarrow> fl \<Rightarrow> fl" where
  "fmul (Fin a) (Fin b) = Fin (a * b)"
| "fmul NaN y = NaN"
| "fmul x NaN = NaN"
| "fmul (Fin a) PInf = inf_times PInf a"
| "fmul (Fin a) NInf = inf_times NInf a"
| "fmul PInf (Fin b) = inf_times PInf b"
| "fmul NInf (Fin b) = inf_times NInf b"
| "fmul PInf PInf = PInf"
| "fmul NInf NInf = PInf"
| "fmul PInf NInf = NInf"
| "fmul NInf PInf = NInf"

fun fdiv :: "fl \<Rightarrow> fl \<Rightarrow> fl" where
  "fdiv (Fin a) (Fin b) =
     (if b = 0 then (if a = 0 then NaN else if 0 < a then PInf else NInf)
      else Fin (a / b))"
| "fdiv NaN y = NaN"
| "fdiv x NaN = NaN"
| "fdiv (Fin a) PInf = Fin 0"
| "fdiv (Fin a) NInf = Fin 0"
| "fdiv PInf (Fin b) = (if 0 \<le> b then PInf else NInf)"
| "fdiv NInf (Fin b) = (if 0 \<le> b then NInf else PInf)"
| "fdiv PInf PInf = NaN"
| "fdiv PInf NInf = NaN"
| "fdiv NInf PInf = NaN"
| "fdiv NInf NInf = NaN"

text \<open>\<open>x > y\<close> and \<open>x < y\<close>: every comparison with NaN is false.\<close>

fun fgt :: "fl \<Rightarrow> fl \<Rightarrow> bool" where
  "fgt (Fin a) (Fin b) = (b < a)"
| "fgt NaN y = False"
| "fgt x NaN = False"
| "fgt PInf PInf = False"
| "fgt PInf y = True"
| "fgt x PInf = False"
| "fgt NInf y = False"
| "fgt x NInf = True"


text \<open>\<open>x ** n\<close> for a literal exponent, as repeated multiplication.\<close>

fun fpow :: "fl \<Rightarrow> nat \<Rightarrow> fl" where
  "fpow x 0 = Fin 1"
| "fpow x (Suc 0) = x"
| "fpow x (Suc (Suc n)) = fmul x (fpow x (Suc n))"

text \<open>\<open>np.sum\<close> of a vector of floats.\<close>

definition fsum :: "fl list \<Rightarrow> fl" where
  "fsum xs = foldr fadd xs (Fin 0)"

definition is_finite :: "fl \<Rightarrow> bool" where
  "is_finite x = (case x of Fin a \<Rightarrow> True | _ \<Rightarrow> False)"

section \<open>N-dimensional arrays\<close>

text \<open>
  A numpy array as a nest of lists, outermost axis first.  For the pattern map the leaf
  is the vector along the last (channel) axis; for a grid of goodness-of-fit values the
  leaf is one value, and a bare \<open>Leaf\<close> is a numpy scalar.
\<close>

datatype 'a ndarray = Leaf 'a | Node "'a ndarray list"

fun flatten :: "'a ndarray \<Rightarrow> 'a list" where
  "flatten (Leaf x) = [x]"
| "flatten (Node xs) = concat (map flatten xs)"


text \<open>
  A nest of lists is an array of shape \<open>shp\<close> when every axis has the same extent
  throughout, as in every numpy array.
\<close>

fun regular :: "nat list \<Rightarrow> 'a ndarray \<Rightarrow> bool" where
  "regular [] a = (case a of Leaf x \<Rightarrow> True | Node xs \<Rightarrow> False)"
| "regular (n # ns) a =
     (case a of Leaf x \<Rightarrow> False | Node xs \<Rightarrow> length xs = n \<and> list_all (regular ns) xs)"

text \<open>One entry of an index tuple: an integer or \<open>slice(start, stop)\<close>.\<close>

datatype index = Ix int | Slice int int

text \<open>\<open>xs[start:stop]\<close> with Python's clamping of both ends to the axis.\<close>

definition slice_bound :: "nat \<Rightarrow> int \<Rightarrow> nat" where
  "slice_bound n k = (if k < 0 then nat (max (k + int n) 0) else min (nat k) n)"

definition py_slice :: "int \<Rightarrow> int \<Rightarrow> 'a list \<Rightarrow> 'a list" where
  "py_slice start stop xs =
     (let lo = slice_bound (length xs) start; hi = slice_bound (length xs) stop
      in take (hi - lo) (drop lo xs))"

text \<open>Running a fallible function over a list, stopping at the first error.\<close>

fun traverse :: "('a \<Rightarrow> error + 'b) \<Rightarrow> 'a list \<Rightarrow> error + 'b list" where
  "traverse f [] = Inr []"
| "traverse f (x # xs) =
     (case f x of
        Inl e \<Rightarrow> Inl e
      | Inr y \<Rightarrow> (case traverse f xs of Inl e \<Rightarrow> Inl e | Inr ys \<Rightarrow> Inr (y # ys)))"

text \<open>
  \<open>a[i_1, ..., i_k]\<close> for integers and slices: an integer outside \<open>-n \<le> i < n\<close>
  raises, a negative one counts from the end, a slice keeps its axis, and an index
  tuple longer than the number of axes raises.
\<close>

fun nd_index :: "index list \<Rightarrow> 'a ndarray \<Rightarrow> error + 'a ndarray" where
  "nd_index [] a = Inr a"
| "nd_index (Ix i # rest) a =
     (case a of
        Leaf x \<Rightarrow> Inl IndexError
      | Node xs \<Rightarrow>
          (let n = int (length xs); j = (if i < 0 then i + n else i)
           in if 0 \<le> j \<and> j < n then nd_index rest (xs ! nat j) else Inl IndexError))"
| "nd_index (Slice start stop # rest) a =
     (case a of
        Leaf x \<Rightarrow> Inl IndexError
      | Node xs \<Rightarrow>
          (case traverse (nd_index rest) (py_slice start stop xs) of
             Inl e \<Rightarrow> Inl e
           | Inr ys \<Rightarrow> Inr (Node ys)))"

text \<open>The entries of a vector that a boolean mask keeps.\<close>

definition keep :: "bool list \<Rightarrow> 'a list \<Rightarrow> 'a list" where
  "keep sel xs = map snd (filter fst (zip sel xs))"

text \<open>\<open>v[mask]\<close> for a boolean mask, which must be as long as the axis it selects from.\<close>

definition mask_select :: "bool list \<Rightarrow> 'a list \<Rightarrow> error + 'a list" where
  "mask_select sel xs = (if length sel \<noteq> length xs then Inl IndexError else Inr (keep sel xs))"

section \<open>Expression strings\<close>

text \<open>
  \<open>ne.evaluate(s)\<close> first compiles the string \<open>s\<close> as a Python expression and
  raises \<open>SyntaxError\<close> when it is malformed; a string whose parentheses do not
  match is malformed.  Otherwise it evaluates the expression elementwise on the arrays
  bound to its names, without raising on a division by zero.
\<close>

fun parens_match :: "nat \<Rightarrow> string \<Rightarrow> bool" where
  "parens_match depth [] = (depth = 0)"
| "parens_match depth (c # cs) =
     (if c = CHR ''('' then parens_match (Suc depth) cs
      else if c = CHR '')'' then (case depth of 0 \<Rightarrow> False | Suc d \<Rightarrow> parens_match d cs)
      else parens_match depth cs)"

text \<open>
  The second argument is what the expression denotes on the arrays in scope, when the
  string compiles.
\<close>

definition ne_evaluate :: "string \<Rightarrow> 'a \<Rightarrow> error + 'a" where
  "ne_evaluate ex denotation = (if parens_match 0 ex then Inr denotation else Inl SyntaxError)"

text \<open>\<open>s.format(ae=...)\<close>: every \<open>{ae}\<close> in \<open>s\<close> is replaced.\<close>

fun format_ae :: "string \<Rightarrow> string \<Rightarrow> string" where
  "format_ae ae [] = []"
| "format_ae ae (c # cs) =
     (if take 4 (c # cs) = ''{ae}'' then ae @ format_ae ae (drop 3 cs)
      else c # format_ae ae cs)"

definition ae_text :: string where
  "ae_text = ''fractions_expected * total_observed''"

definition chi2gamma_text :: string where
  "chi2gamma_text =
     format_ae ae_text
       (''(ao + where(ao > 1, 1, ao) - {ae})**2 /'' @ ''({ae} + square_syst_errors + 1)'')"

definition chi2_text :: string where
  "chi2_text =
     format_ae ae_text (''(ao + {ae})**2 /'' @ ''({ae} + square_syst_errors'')"

text \<open>\<open>where(c, a, b)\<close> of numexpr: \<open>a\<close> where the condition holds, else \<open>b\<close>.\<close>

definition ne_where :: "bool \<Rightarrow> fl \<Rightarrow> fl \<Rightarrow> fl" where
  "ne_where c a b = (if c then a else b)"

text \<open>
  One element of
  \<open>(ao + where(ao > 1, 1, ao) - fractions_expected * total_observed)**2 /
     (fractions_expected * total_observed + square_syst_errors + 1)\<close>.
\<close>

definition chi2gamma_term :: "fl \<Rightarrow> fl \<Rightarrow> fl \<Rightarrow> fl \<Rightarrow> fl" where
  "chi2gamma_term ao fractions_expected total_observed square_syst_errors =
     fdiv (fpow (fsub (fadd ao (ne_where (fgt ao (Fin 1)) (Fin 1) ao))
                      (fmul fractions_expected total_observed)) 2)
          (fadd (fadd (fmul fractions_expected total_observed) square_syst_errors) (Fin 1))"

text \<open>
  One element of the \<open>chi2\<close> expression, read with its last parenthesis closed:
  \<open>(ao + fractions_expected * total_observed)**2 /
     (fractions_expected * total_observed + square_syst_errors)\<close>.
\<close>

definition chi2_term :: "fl \<Rightarrow> fl \<Rightarrow> fl \<Rightarrow> fl \<Rightarrow> fl" where
  "chi2_term ao fractions_expected total_observed square_syst_errors =
     fdiv (fpow (fadd ao (fmul fractions_expected total_observed)) 2)
          (fadd (fmul fractions_expected total_observed) square_syst_errors)"

section \<open>The pattern fitter\<close>

text \<open>
  \<open>default_errors\<close> is the scalar \<open>0\<close> or an array with one factor per channel.
\<close>

datatype scalar_or_array = Scalar real | Array "real list"

text \<open>
  The attributes of a \<open>PatternFitter\<close> that its methods read.  \<open>data\<close> is the map
  after zooming and efficiency adjustment: one axis per spatial dimension, and the vector
  of the channels at each bin.
\<close>

record PatternFitter =
  data :: "real list ndarray"
  dimensions :: nat
  coordinate_data :: "CoordinateData list"
  n_points :: nat
  default_pmt_selection :: "bool list"
  default_errors :: scalar_or_array

text \<open>\<open>get_bin_indices\<close>: \<open>_get_bin_index\<close> on each coordinate, in order.\<close>

definition get_bin_indices :: "PatternFitter \<Rightarrow> real list \<Rightarrow> error + int list" where
  "get_bin_indices self coordinates =
     traverse (\<lambda>(dimension_i, x). get_bin_index (coordinate_data self) x dimension_i)
       (enumerate 0 coordinates)"

text \<open>
  \<open>expected_pattern\<close>.  The trailing \<open>slice(None)\<close> keeps the whole channel axis;
  \<open>pattern.sum()\<close> adds up every entry of the selected array.
\<close>

definition expected_pattern :: "PatternFitter \<Rightarrow> real list \<Rightarrow> error + real list ndarray" where
  "expected_pattern self coordinates =
     (case get_bin_indices self coordinates of
        Inl e \<Rightarrow> Inl e
      | Inr bins \<Rightarrow>
          (case nd_index (map Ix bins) (data self) of
             Inl e \<Rightarrow> Inl e
           | Inr pattern \<Rightarrow>
               (let sum_pattern = sum_list (concat (flatten pattern))
                in if sum_pattern = 0
                   then Inl (CoordinateOutOfRangeException (OnlyZeros coordinates))
                   else Inr (map_ndarray (map (\<lambda>x. x / sum_pattern)) pattern))))"

text \<open>
  \<open>a * b\<close> for two vectors under numpy's broadcasting: equal lengths, or one of
  length one.
\<close>

definition broadcast2 :: "('a \<Rightarrow> 'b \<Rightarrow> 'c) \<Rightarrow> 'a list \<Rightarrow> 'b list \<Rightarrow> error + 'c list" where
  "broadcast2 f xs ys =
     (if length xs = length ys then Inr (map2 f xs ys)
      else if length xs = 1 then Inr (map (f (hd xs)) ys)
      else if length ys = 1 then Inr (map (\<lambda>x. f x (hd ys)) xs)
      else Inl ValueError)"

text \<open>\<open>(self.default_errors * areas_observed) ** 2\<close>.\<close>

definition default_square_syst_errors :: "scalar_or_array \<Rightarrow> real list \<Rightarrow> error + real list" where
  "default_square_syst_errors de areas_observed =
     (case de of
        Scalar s \<Rightarrow> Inr (map (\<lambda>a. (s * a)\<^sup>2) areas_observed)
      | Array es \<Rightarrow> broadcast2 (\<lambda>e a. (e * a)\<^sup>2) es areas_observed)"

text \<open>
  \<open>self.data[bin_selection + [pmt_selection]]\<close>, for a bin selection with one entry
  per spatial axis (as \<open>compute_gof\<close> and \<open>compute_gof_grid\<close> build it): the mask then
  selects along the channel axis and must be as long as it.
\<close>

definition select_bins :: "PatternFitter \<Rightarrow> index list \<Rightarrow> bool list \<Rightarrow> error + real list ndarray" where
  "select_bins self bin_selection pmt_selection =
     (case nd_index bin_selection (data self) of
        Inl e \<Rightarrow> Inl e
      | Inr sub \<Rightarrow>
          if length pmt_selection \<noteq> n_points self then Inl IndexError
          else Inr (map_ndarray (keep pmt_selection) sub))"

text \<open>
  The array \<open>result\<close> of \<open>_compute_gof_base\<close>: the contribution of every selected
  channel at every selected bin.  The vectorised expressions are spelled out per bin and
  per channel.
\<close>

definition gof_terms ::
  "PatternFitter \<Rightarrow> index list \<Rightarrow> real list \<Rightarrow> bool list option \<Rightarrow> real list option \<Rightarrow> string
     \<Rightarrow> error + fl list ndarray" where
  "gof_terms self bin_selection areas_observed pmt_selection square_syst_errors statistic =
     (let pmt_selection =
            (case pmt_selection of None \<Rightarrow> default_pmt_selection self | Some sel \<Rightarrow> sel)
      in
      case (case square_syst_errors of
              None \<Rightarrow> default_square_syst_errors (default_errors self) areas_observed
            | Some sse \<Rightarrow> Inr sse) of
        Inl e \<Rightarrow> Inl e
      | Inr square_syst_errors \<Rightarrow>
      (case mask_select pmt_selection areas_observed of
        Inl e \<Rightarrow> Inl e
      | Inr ao \<Rightarrow>
      (case select_bins self bin_selection pmt_selection of
        Inl e \<Rightarrow> Inl e
      | Inr q \<Rightarrow>
      (case ne_evaluate ''q / qsum''
              (map_ndarray (\<lambda>qb. map (\<lambda>x. fdiv (Fin x) (Fin (sum_list qb))) qb) q) of
        Inl e \<Rightarrow> Inl e
      | Inr fractions_expected \<Rightarrow>
      (let total_observed = sum_list ao in
       case mask_select pmt_selection square_syst_errors of
        Inl e \<Rightarrow> Inl e
      | Inr sse \<Rightarrow>
          (let per_bin = (\<lambda>term fb.
                 map (\<lambda>(a, f, s). term (Fin a) f (Fin total_observed) (Fin s))
                   (zip ao (zip fb sse)))
           in if statistic = ''chi2gamma''
              then ne_evaluate chi2gamma_text (map_ndarray (per_bin chi2gamma_term) fractions_expected)
              else if statistic = ''chi2''
              then ne_evaluate chi2_text (map_ndarray (per_bin chi2_term) fractions_expected)
              else Inl ValueError))))))"

text \<open>\<open>_compute_gof_base\<close>: \<open>np.sum(result, axis=-1)\<close>.\<close>

definition compute_gof_base ::
  "PatternFitter \<Rightarrow> index list \<Rightarrow> real list \<Rightarrow> bool list option \<Rightarrow> real list option \<Rightarrow> string
     \<Rightarrow> error + fl ndarray" where
  "compute_gof_base self bin_selection areas_observed pmt_selection square_syst_errors statistic =
     (case gof_terms self bin_selection areas_observed pmt_selection square_syst_errors statistic of
        Inl e \<Rightarrow> Inl e
      | Inr result \<Rightarrow> Inr (map_ndarray fsum result))"

definition compute_gof ::
  "PatternFitter \<Rightarrow> real list \<Rightarrow> real list \<Rightarrow> bool list option \<Rightarrow> real list option \<Rightarrow> string
     \<Rightarrow> error + fl ndarray" where
  "compute_gof self coordinates areas_observed pmt_selection square_syst_errors statistic =
     (case get_bin_indices self coordinates of
        Inl e \<Rightarrow> Inl e
      | Inr bins \<Rightarrow>
          compute_gof_base self (map Ix bins) areas_observed pmt_selection square_syst_errors
            statistic)"

text \<open>
  The loop of \<open>compute_gof_grid\<close> over \<open>enumerate(center_coordinates)\<close>, which builds
  \<open>bin_selection\<close> and \<open>lowest_bins\<close>.
\<close>

fun grid_selection ::
  "PatternFitter \<Rightarrow> real \<Rightarrow> (nat \<times> real) list \<Rightarrow> error + (index list \<times> int list)" where
  "grid_selection self grid_size [] = Inr ([], [])"
| "grid_selection self grid_size ((dimension_i, x) # rest) =
     (case list_get (coordinate_data self) dimension_i of
        Inl e \<Rightarrow> Inl e
      | Inr cd \<Rightarrow>
          if \<not> (minimum cd \<le> x \<and> x \<le> maximum cd)
          then Inl (CoordinateOutOfRangeException (NotInAllowedRange x (minimum cd) (maximum cd)))
          else
            (case get_bin_index (coordinate_data self) (max (x - grid_size / 2) (minimum cd))
                    dimension_i of
               Inl e \<Rightarrow> Inl e
             | Inr start \<Rightarrow>
                 (case get_bin_index (coordinate_data self) (min (x + grid_size / 2) (maximum cd))
                         dimension_i of
                    Inl e \<Rightarrow> Inl e
                  | Inr stop \<Rightarrow>
                      (case grid_selection self grid_size rest of
                         Inl e \<Rightarrow> Inl e
                       | Inr (bin_selection, lowest_bins) \<Rightarrow>
                           Inr (Slice start (stop + 1) # bin_selection, start # lowest_bins)))))"

text \<open>\<open>compute_gof_grid\<close> with \<open>plot=False\<close>.\<close>

definition compute_gof_grid ::
  "PatternFitter \<Rightarrow> real list \<Rightarrow> real \<Rightarrow> real list \<Rightarrow> bool list option \<Rightarrow> real list option
     \<Rightarrow> string \<Rightarrow> error + (fl ndarray \<times> int list)" where
  "compute_gof_grid self center_coordinates grid_size areas_observed pmt_selection
       square_syst_errors statistic =
     (case grid_selection self grid_size (enumerate 0 center_coordinates) of
        Inl e \<Rightarrow> Inl e
      | Inr (bin_selection, lowest_bins) \<Rightarrow>
          (case compute_gof_base self bin_selection areas_observed pmt_selection
                  square_syst_errors statistic of
             Inl e \<Rightarrow> Inl e
           | Inr gofs \<Rightarrow> Inr (gofs, lowest_bins)))"









section \<open>A small map\<close>

text \<open>
  A one-axis template \<open>['x', (0, 2, 2)]\<close> with two channels: the first bin has no
  expected response at all, the second expects a quarter of the light in the first
  channel.
\<close>

definition example_axes :: "CoordinateData list" where
  "example_axes = [\<lparr>minimum = 0, maximum = 2, n_bins = 2, bin_spacing = 1\<rparr>]"

definition example_fitter :: PatternFitter where
  "example_fitter =
     \<lparr>data = Node [Leaf [0, 0], Leaf [1, 3]],
      dimensions = 1,
      coordinate_data = example_axes,
      n_points = 2,
      default_pmt_selection = [True, True],
      default_errors = Scalar 0\<rparr>"

text \<open>
  The per-channel chi2gamma contribution as the specification words it:
  \<open>(observed + max(observed,1) - expected_amplitude)^2 /
    (expected_amplitude + systematic_error^2 + 1)\<close>.
\<close>

definition spec_chi2gamma_term :: "real \<Rightarrow> real \<Rightarrow> real \<Rightarrow> real" where
  "spec_chi2gamma_term observed expected_amplitude square_syst_error =
     (observed + max observed 1 - expected_amplitude)\<^sup>2 /
       (expected_amplitude + square_syst_error + 1)"

text \<open>
  The expected amplitudes of one bin (\<open>fractions_expected * total_observed\<close>) from its
  selected expected responses \<open>q\<close> and the selected observed amplitudes \<open>ao\<close>.
\<close>

definition areas_expected :: "real list \<Rightarrow> real list \<Rightarrow> real list" where
  "areas_expected q ao = map (\<lambda>x. x / sum_list q * sum_list ao) q"

text \<open>
  The per-channel chi2gamma contribution with the smaller of the observed amplitude and
  one in the residual.
\<close>

definition chi2gamma_contribution :: "real \<Rightarrow> real \<Rightarrow> real \<Rightarrow> real" where
  "chi2gamma_contribution observed expected_amplitude square_syst_error =
     (observed + min observed 1 - expected_amplitude)\<^sup>2 /
       (expected_amplitude + square_syst_error + 1)"

text \<open>The range check \<open>cd.minimum <= x <= cd.maximum\<close>.\<close>

definition in_range :: "CoordinateData \<Rightarrow> real \<Rightarrow> bool" where
  "in_range cd x \<longleftrightarrow> minimum cd \<le> x \<and> x \<le> maximum cd"

section \<open>Bin indexing\<close>

lemma example_axes_configured: "coordinate_data_init [(''x'', 0, 2, 2)] 1 = Inr example_axes"
  by (simp add: make_coordinate_data_def example_axes_def)

lemma make_coordinate_data_ok:
  assumes "start < stop" and "0 < nb * zoom_factor"
  shows "\<exists>cd. make_coordinate_data start stop nb zoom_factor = Inr cd \<and> axis_ok cd"
  using assms by (auto simp: make_coordinate_data_def axis_ok_def Let_def)

lemma axis_ok_spacing_pos: "axis_ok cd \<Longrightarrow> 0 < bin_spacing cd"
  by (simp add: axis_ok_def)

lemma axis_ok_span:
  "axis_ok cd \<Longrightarrow> bin_spacing cd * real_of_int (n_bins cd) = maximum cd - minimum cd"
  by (simp add: axis_ok_def)

lemma example_axes_ok: "axis_ok (example_axes ! 0)"
  by (simp add: example_axes_def axis_ok_def)

lemma get_bin_index_out_of_range:
  assumes "d < length cds" and "v < minimum (cds ! d) \<or> maximum (cds ! d) < v"
  shows "get_bin_index cds v d =
           Inl (CoordinateOutOfRangeException
                  (NotInAllowedRange v (minimum (cds ! d)) (maximum (cds ! d))))"
  using assms by (auto simp: get_bin_index_def list_get_def)

lemma get_bin_index_in_range:
  assumes "d < length cds" and "axis_ok (cds ! d)"
    and "minimum (cds ! d) \<le> v" and "v \<le> maximum (cds ! d)"
  shows "get_bin_index cds v d = Inr \<lfloor>(v - minimum (cds ! d)) / bin_spacing (cds ! d)\<rfloor>"
proof -
  have pos: "0 < bin_spacing (cds ! d)"
    using assms(2) by (rule axis_ok_spacing_pos)
  have "0 \<le> (v - minimum (cds ! d)) / bin_spacing (cds ! d)"
    using pos assms(3) by simp
  then show ?thesis
    using assms(1,3,4) pos by (simp add: get_bin_index_def list_get_def py_int_def)
qed

lemma get_bin_index_maximum:
  assumes "d < length cds" and "axis_ok (cds ! d)"
  shows "get_bin_index cds (maximum (cds ! d)) d = Inr (n_bins (cds ! d))"
proof -
  have pos: "0 < bin_spacing (cds ! d)"
    using assms(2) by (rule axis_ok_spacing_pos)
  have "(maximum (cds ! d) - minimum (cds ! d)) / bin_spacing (cds ! d)
          = real_of_int (n_bins (cds ! d))"
    using pos axis_ok_span [OF assms(2)] by (simp add: field_simps)
  moreover have "minimum (cds ! d) \<le> maximum (cds ! d)"
    using assms(2) by (simp add: axis_ok_def)
  ultimately show ?thesis
    using get_bin_index_in_range [OF assms, of "maximum (cds ! d)"] by simp
qed

text \<open>
  C1.  At the upper edge of an axis, which the range check accepts, \<open>_get_bin_index\<close>
  returns \<open>n_bins\<close>, one past the last bin \<open>n_bins - 1\<close>: on the axis from 0 to 2 with
  two bins, the value 2 gets the index 2.
\<close>

theorem bin_index_at_maximum_is_n_bins:
  "get_bin_index example_axes (maximum (example_axes ! 0)) 0 = Inr (n_bins (example_axes ! 0))
   \<and> get_bin_index example_axes 2 0 = Inr 2
   \<and> n_bins (example_axes ! 0) - 1 = 1"
  by (simp add: get_bin_index_def list_get_def py_int_def example_axes_def)

text \<open>
  C8.  On every axis built from \<open>start < stop\<close> and a positive number of bins, and for
  every bin \<open>0 \<le> i < n_bins\<close>, the centre of bin \<open>i\<close> is
  \<open>minimum + bin_spacing * (i + 0.5)\<close>, and \<open>_get_bin_index\<close> of that centre returns
  \<open>i\<close> and does not raise.
\<close>

theorem bin_center_round_trip:
  assumes "d < length cds" and "axis_ok (cds ! d)"
    and "0 \<le> i" and "i < n_bins (cds ! d)"
  shows "get_bin_center cds i d =
           Inr (minimum (cds ! d) + bin_spacing (cds ! d) * (real_of_int i + 0.5))
         \<and> get_bin_index cds (minimum (cds ! d) + bin_spacing (cds ! d) * (real_of_int i + 0.5)) d
             = Inr i"
proof -
  let ?cd = "cds ! d"
  let ?c = "minimum ?cd + bin_spacing ?cd * (real_of_int i + 0.5)"
  have pos: "0 < bin_spacing ?cd"
    using assms(2) by (rule axis_ok_spacing_pos)
  have lo: "minimum ?cd \<le> ?c"
    using pos assms(3) by simp
  have "real_of_int i + 0.5 \<le> real_of_int (n_bins ?cd)"
    using assms(4) by simp
  then have "bin_spacing ?cd * (real_of_int i + 0.5) \<le> bin_spacing ?cd * real_of_int (n_bins ?cd)"
    using pos by (simp only: mult_le_cancel_left_pos)
  then have hi: "?c \<le> maximum ?cd"
    using axis_ok_span [OF assms(2)] by simp
  have "(?c - minimum ?cd) / bin_spacing ?cd = real_of_int i + 0.5"
    using pos by simp
  moreover have "\<lfloor>real_of_int i + 0.5 :: real\<rfloor> = i"
    by (simp add: floor_unique)
  ultimately have "get_bin_index cds ?c d = Inr i"
    using get_bin_index_in_range [OF assms(1,2) lo hi] by simp
  moreover have "get_bin_center cds i d = Inr ?c"
    using assms(1) by (simp add: get_bin_center_def list_get_def)
  ultimately show ?thesis by simp
qed

theorem bin_center_round_trip_witness:
  "get_bin_center example_axes 1 0 = Inr (3 / 2) \<and> get_bin_index example_axes (3 / 2) 0 = Inr 1"
proof -
  have d: "(0::nat) < length example_axes" by (simp add: example_axes_def)
  have i: "(1::int) < n_bins (example_axes ! 0)" by (simp add: example_axes_def)
  show ?thesis
    using bin_center_round_trip [OF d example_axes_ok _ i] by (simp add: example_axes_def)
qed

section \<open>Goodness of fit\<close>

lemma chi2_text_unbalanced: "\<not> parens_match 0 chi2_text"
  by (simp add: chi2_text_def ae_text_def)

lemma chi2gamma_text_balanced: "parens_match 0 chi2gamma_text"
  by (simp add: chi2gamma_text_def ae_text_def)

lemma statistic_names_differ: "''chi2'' \<noteq> ''chi2gamma''"
  by simp

lemma gof_terms_chi2_raises:
  "gof_terms self bin_selection areas_observed pmt_selection square_syst_errors ''chi2'' \<noteq> Inr r"
  by (simp add: gof_terms_def ne_evaluate_def Let_def chi2_text_unbalanced
      split: sum.splits option.splits)

lemma compute_gof_base_chi2_raises:
  "compute_gof_base self bin_selection areas_observed pmt_selection square_syst_errors ''chi2''
     \<noteq> Inr r"
  using gof_terms_chi2_raises
  by (simp add: compute_gof_base_def split: sum.splits)

text \<open>
  C2.  With the statistic \<open>'chi2'\<close> neither \<open>compute_gof\<close> nor
  \<open>compute_gof_grid\<close> returns a value, whatever the other arguments are: the
  expression string handed to \<open>ne.evaluate\<close> lacks its closing parenthesis, so the
  call raises \<open>SyntaxError\<close> when every earlier step succeeds (as at the centre of
  the second bin of the small map).
\<close>

theorem chi2_statistic_never_returns:
  "compute_gof self coordinates areas_observed pmt_selection square_syst_errors ''chi2'' \<noteq> Inr gof
   \<and> compute_gof_grid self coordinates grid_size areas_observed pmt_selection square_syst_errors
        ''chi2'' \<noteq> Inr grid
   \<and> compute_gof example_fitter [3 / 2] [2, 6] None (Some [0, 0]) ''chi2'' = Inl SyntaxError"
proof -
  have a: "compute_gof self coordinates areas_observed pmt_selection square_syst_errors ''chi2''
             \<noteq> Inr gof"
    using compute_gof_base_chi2_raises by (simp add: compute_gof_def split: sum.splits)
  have b: "compute_gof_grid self coordinates grid_size areas_observed pmt_selection
             square_syst_errors ''chi2'' \<noteq> Inr grid"
    using compute_gof_base_chi2_raises
    by (simp add: compute_gof_grid_def split: sum.splits prod.splits)
  have c: "compute_gof example_fitter [3 / 2] [2, 6] None (Some [0, 0]) ''chi2'' = Inl SyntaxError"
    by (simp add: compute_gof_def compute_gof_base_def gof_terms_def get_bin_indices_def
        get_bin_index_def list_get_def py_int_def example_fitter_def example_axes_def
        select_bins_def mask_select_def keep_def ne_evaluate_def chi2_text_unbalanced
        enumerate_eq_zip)
  from a b c show ?thesis by simp
qed

lemma fpow_2: "fpow x 2 = fmul x x"
  by (simp add: numeral_2_eq_2)

lemma chi2gamma_term_finite:
  assumes "f * t + s + 1 \<noteq> 0"
  shows "chi2gamma_term (Fin a) (Fin f) (Fin t) (Fin s) = Fin (chi2gamma_contribution a (f * t) s)"
  using assms
  by (simp add: chi2gamma_term_def chi2gamma_contribution_def fpow_2 fsub_def ne_where_def
      power2_eq_square min_def)

lemma per_bin_chi2gamma:
  assumes "sum_list q \<noteq> 0"
    and "\<forall>(a, e, s) \<in> set (zip ao (zip (areas_expected q ao) es)). e + s + 1 \<noteq> 0"
  shows "map (\<lambda>(a, f, s). chi2gamma_term (Fin a) f (Fin (sum_list ao)) (Fin s))
             (zip ao (zip (map (\<lambda>x. fdiv (Fin x) (Fin (sum_list q))) q) es))
         = map (\<lambda>(a, e, s). Fin (chi2gamma_contribution a e s))
             (zip ao (zip (areas_expected q ao) es))"
proof -
  have "chi2gamma_term (Fin a) (fdiv (Fin x) (Fin (sum_list q))) (Fin (sum_list ao)) (Fin s)
          = Fin (chi2gamma_contribution a (x / sum_list q * sum_list ao) s)"
    if "(a, x, s) \<in> set (zip ao (zip q es))" for a x s
  proof -
    from that have "(a, x / sum_list q * sum_list ao, s)
                      \<in> set (zip ao (zip (areas_expected q ao) es))"
      by (force simp: areas_expected_def zip_map1 zip_map2)
    with assms(2) have "x / sum_list q * sum_list ao + s + 1 \<noteq> 0"
      by blast
    then show ?thesis
      using assms(1) chi2gamma_term_finite [of "x / sum_list q" "sum_list ao" s a] by simp
  qed
  then show ?thesis
    by (auto simp: areas_expected_def zip_map1 zip_map2)
qed

lemma mask_select_ok: "length sel = length xs \<Longrightarrow> mask_select sel xs = Inr (keep sel xs)"
  by (simp add: mask_select_def)

lemma ne_evaluate_fractions: "ne_evaluate ''q / qsum'' d = Inr d"
  by (simp add: ne_evaluate_def)

lemma gof_terms_chi2gamma_unfold:
  assumes "nd_index bin_selection (data self) = Inr sub"
    and "length sel = n_points self"
    and "length areas_observed = length sel" and "length sse = length sel"
  shows "gof_terms self bin_selection areas_observed (Some sel) (Some sse) ''chi2gamma''
         = Inr (map_ndarray
                  (\<lambda>v. map (\<lambda>(a, f, s). chi2gamma_term (Fin a) f
                                  (Fin (sum_list (keep sel areas_observed))) (Fin s))
                         (zip (keep sel areas_observed)
                            (zip (map (\<lambda>x. fdiv (Fin x) (Fin (sum_list (keep sel v))))
                                    (keep sel v))
                               (keep sel sse))))
                  sub)"
  using assms
  by (simp add: gof_terms_def select_bins_def mask_select_ok ne_evaluate_fractions
      ne_evaluate_def chi2gamma_text_balanced ndarray.map_comp comp_def)

text \<open>
  C3 as stated fails.  At the second bin of the small map with observed amplitudes
  \<open>[2, 6]\<close> the expected amplitudes are \<open>[2, 6]\<close> as well, and with no systematic
  error the two contributions are \<open>1/3\<close> and \<open>1/7\<close>, not the
  \<open>max(observed,1)^2 / (observed + 1)\<close> of the claim (\<open>4/3\<close> and \<open>36/7\<close>).
\<close>

theorem chi2gamma_max_counterexample:
  "gof_terms example_fitter [Ix 1] [2, 6] None (Some [0, 0]) ''chi2gamma''
     = Inr (Leaf [Fin (1 / 3), Fin (1 / 7)])
   \<and> areas_expected [1, 3] [2, 6] = [2, 6]
   \<and> spec_chi2gamma_term 2 2 0 = 4 / 3 \<and> spec_chi2gamma_term 6 6 0 = 36 / 7
   \<and> gof_terms example_fitter [Ix 1] [2, 6] None (Some [0, 0]) ''chi2gamma''
     \<noteq> Inr (Leaf [Fin (spec_chi2gamma_term 2 2 0), Fin (spec_chi2gamma_term 6 6 0)])"
proof -
  have sub: "nd_index [Ix 1] (data example_fitter) = Inr (Leaf [1, 3])"
    by (simp add: example_fitter_def)
  have n: "length [True, True] = n_points example_fitter"
    by (simp add: example_fitter_def)
  have "gof_terms example_fitter [Ix 1] [2, 6] (Some [True, True]) (Some [0, 0]) ''chi2gamma''
          = Inr (Leaf [Fin (1 / 3), Fin (1 / 7)])"
    by (simp add: gof_terms_chi2gamma_unfold [OF sub n] keep_def
        chi2gamma_term_def fpow_2 fsub_def ne_where_def)
  moreover have "gof_terms example_fitter [Ix 1] [2, 6] None (Some [0, 0]) ''chi2gamma''
          = gof_terms example_fitter [Ix 1] [2, 6] (Some [True, True]) (Some [0, 0]) ''chi2gamma''"
    by (simp add: gof_terms_def example_fitter_def)
  ultimately show ?thesis
    by (simp add: areas_expected_def spec_chi2gamma_term_def)
qed

text \<open>
  C3, amended.  For the statistic \<open>'chi2gamma'\<close>, at every selected bin whose selected
  expected responses do not sum to zero, the contribution of a channel is
  \<open>(observed + min(observed,1) - expected_amplitude)^2 /
    (expected_amplitude + systematic_error^2 + 1)\<close>
  (where that denominator is not zero), with the smaller of \<open>observed\<close> and one in the
  residual; the expected amplitude is the expected fraction times the total selected
  observed amplitude.  For \<open>observed = expected_amplitude\<close> and no systematic error the
  contribution is \<open>min(observed,1)^2 / (observed + 1)\<close>, which is not zero unless
  \<open>observed\<close> is \<open>0\<close> (or \<open>-1\<close>).
\<close>

theorem chi2gamma_contributions:
  assumes "nd_index bin_selection (data self) = Inr sub"
    and "length sel = n_points self"
    and "length areas_observed = length sel" and "length sse = length sel"
    and "\<forall>v \<in> set_ndarray sub.
           sum_list (keep sel v) \<noteq> 0 \<and>
           (\<forall>(a, e, s) \<in> set (zip (keep sel areas_observed)
                                (zip (areas_expected (keep sel v) (keep sel areas_observed))
                                   (keep sel sse))).
              e + s + 1 \<noteq> 0)"
  shows "gof_terms self bin_selection areas_observed (Some sel) (Some sse) ''chi2gamma''
           = Inr (map_ndarray
                    (\<lambda>v. map (\<lambda>(a, e, s). Fin (chi2gamma_contribution a e s))
                           (zip (keep sel areas_observed)
                              (zip (areas_expected (keep sel v) (keep sel areas_observed))
                                 (keep sel sse))))
                    sub)
         \<and> chi2gamma_contribution x x 0 = (min x 1)\<^sup>2 / (x + 1)
         \<and> (x \<noteq> 0 \<and> x \<noteq> - 1 \<longrightarrow> chi2gamma_contribution x x 0 \<noteq> 0)"
proof -
  have "map_ndarray
          (\<lambda>v. map (\<lambda>(a, f, s). chi2gamma_term (Fin a) f
                         (Fin (sum_list (keep sel areas_observed))) (Fin s))
                 (zip (keep sel areas_observed)
                    (zip (map (\<lambda>x. fdiv (Fin x) (Fin (sum_list (keep sel v)))) (keep sel v))
                       (keep sel sse))))
          sub
        = map_ndarray
          (\<lambda>v. map (\<lambda>(a, e, s). Fin (chi2gamma_contribution a e s))
                 (zip (keep sel areas_observed)
                    (zip (areas_expected (keep sel v) (keep sel areas_observed))
                       (keep sel sse))))
          sub"
  proof (rule ndarray.map_cong [OF refl])
    fix v assume "v \<in> set_ndarray sub"
    with assms(5) have "sum_list (keep sel v) \<noteq> 0"
      and "\<forall>(a, e, s) \<in> set (zip (keep sel areas_observed)
                                (zip (areas_expected (keep sel v) (keep sel areas_observed))
                                   (keep sel sse))).
              e + s + 1 \<noteq> 0"
      by blast+
    then show "map (\<lambda>(a, f, s). chi2gamma_term (Fin a) f
                         (Fin (sum_list (keep sel areas_observed))) (Fin s))
                 (zip (keep sel areas_observed)
                    (zip (map (\<lambda>x. fdiv (Fin x) (Fin (sum_list (keep sel v)))) (keep sel v))
                       (keep sel sse)))
               = map (\<lambda>(a, e, s). Fin (chi2gamma_contribution a e s))
                 (zip (keep sel areas_observed)
                    (zip (areas_expected (keep sel v) (keep sel areas_observed))
                       (keep sel sse)))"
      by (rule per_bin_chi2gamma)
  qed
  then have first: "gof_terms self bin_selection areas_observed (Some sel) (Some sse) ''chi2gamma''
           = Inr (map_ndarray
                    (\<lambda>v. map (\<lambda>(a, e, s). Fin (chi2gamma_contribution a e s))
                           (zip (keep sel areas_observed)
                              (zip (areas_expected (keep sel v) (keep sel areas_observed))
                                 (keep sel sse))))
                    sub)"
    using gof_terms_chi2gamma_unfold [OF assms(1-4)] by simp
  have second: "chi2gamma_contribution x x 0 = (min x 1)\<^sup>2 / (x + 1)"
    by (simp add: chi2gamma_contribution_def)
  have third: "x \<noteq> 0 \<and> x \<noteq> - 1 \<longrightarrow> chi2gamma_contribution x x 0 \<noteq> 0"
    by (auto simp: second min_def)
  from first second third show ?thesis by blast
qed

theorem chi2gamma_contributions_witness:
  "gof_terms example_fitter [Ix 1] [2, 6] (Some [True, True]) (Some [0, 0]) ''chi2gamma''
     = Inr (Leaf [Fin (1 / 3), Fin (1 / 7)])
   \<and> chi2gamma_contribution 2 2 0 = 1 / 3
   \<and> chi2gamma_contribution 2 2 0 \<noteq> 0"
proof -
  have h1: "nd_index [Ix 1] (data example_fitter) = Inr (Leaf [1, 3])"
    by (simp add: example_fitter_def)
  have h2: "length [True, True] = n_points example_fitter"
    by (simp add: example_fitter_def)
  have h3: "length [2, 6 :: real] = length [True, True]" by simp
  have h4: "length [0, 0 :: real] = length [True, True]" by simp
  have h5: "\<forall>v \<in> set_ndarray (Leaf [1, 3 :: real]).
           sum_list (keep [True, True] v) \<noteq> 0 \<and>
           (\<forall>(a, e, s) \<in> set (zip (keep [True, True] [2, 6])
                                (zip (areas_expected (keep [True, True] v) (keep [True, True] [2, 6]))
                                   (keep [True, True] [0, 0]))).
              e + s + 1 \<noteq> 0)"
    by (simp add: keep_def areas_expected_def)
  show ?thesis
    using chi2gamma_contributions [OF h1 h2 h3 h4 h5, of 2]
    by (simp add: keep_def areas_expected_def chi2gamma_contribution_def)
qed

lemma length_keep:
  "length xs = length sel \<Longrightarrow> length (keep sel xs) = length (filter id sel)"
proof (induction sel arbitrary: xs)
  case Nil
  then show ?case by (simp add: keep_def)
next
  case (Cons b sel)
  then obtain y ys where "xs = y # ys" and "length ys = length sel"
    by (cases xs) auto
  with Cons.IH [of ys] show ?case by (simp add: keep_def)
qed

lemma fdiv_by_zero_not_finite: "\<not> is_finite (fdiv (Fin x) (Fin 0))"
  by (simp add: is_finite_def)

lemma chi2gamma_term_not_finite_fraction:
  assumes "\<not> is_finite fr"
  shows "chi2gamma_term (Fin a) fr (Fin t) (Fin s) = NaN"
  using assms
  by (cases fr)
     (simp_all add: is_finite_def chi2gamma_term_def fpow_2 fsub_def ne_where_def inf_times_def)

lemma fsum_replicate_NaN: "fsum (replicate n NaN) = (if n = 0 then Fin 0 else NaN)"
  by (cases n) (simp_all add: fsum_def)

lemma dead_bin_terms:
  assumes "sum_list q = 0"
  shows "map (\<lambda>(a, f, s). chi2gamma_term (Fin a) f (Fin t) (Fin s))
             (zip ao (zip (map (\<lambda>x. fdiv (Fin x) (Fin (sum_list q))) q) es))
         = replicate (length (zip ao (zip q es))) NaN"
proof -
  have "map (\<lambda>(a, f, s). chi2gamma_term (Fin a) f (Fin t) (Fin s))
             (zip ao (zip (map (\<lambda>x. fdiv (Fin x) (Fin (sum_list q))) q) es))
        = map (\<lambda>(a, x, s). chi2gamma_term (Fin a) (fdiv (Fin x) (Fin 0)) (Fin t) (Fin s))
             (zip ao (zip q es))"
    using assms by (simp add: zip_map1 zip_map2 case_prod_unfold comp_def)
  also have "\<dots> = map (\<lambda>_. NaN) (zip ao (zip q es))"
    by (simp add: chi2gamma_term_not_finite_fraction [OF fdiv_by_zero_not_finite]
        case_prod_unfold del: fdiv.simps)
  finally show ?thesis
    by (simp add: map_replicate_const)
qed

lemma example_bins_dead: "get_bin_indices example_fitter [1 / 2] = Inr [0]"
  by (simp add: get_bin_indices_def get_bin_index_def list_get_def py_int_def
      example_fitter_def example_axes_def enumerate_eq_zip)

lemma example_bins_live: "get_bin_indices example_fitter [3 / 2] = Inr [1]"
  by (simp add: get_bin_indices_def get_bin_index_def list_get_def py_int_def
      example_fitter_def example_axes_def enumerate_eq_zip)

text \<open>
  C10 as stated fails when the mask selects no channel: the selected expected responses
  then sum to zero, nothing is divided, and \<open>compute_gof\<close> returns \<open>0.0\<close>.
\<close>

theorem dead_bin_empty_mask_counterexample:
  "compute_gof example_fitter [1 / 2] [2, 6] (Some [False, False]) None ''chi2gamma''
     = Inr (Leaf (Fin 0))
   \<and> sum_list (keep [False, False] [0, 0 :: real]) = 0"
proof -
  have sub: "nd_index [Ix 0] (data example_fitter) = Inr (Leaf [0, 0])"
    by (simp add: example_fitter_def)
  have n: "length [False, False] = n_points example_fitter"
    by (simp add: example_fitter_def)
  have "gof_terms example_fitter [Ix 0] [2, 6] (Some [False, False]) None ''chi2gamma''
          = gof_terms example_fitter [Ix 0] [2, 6] (Some [False, False]) (Some [0, 0])
              ''chi2gamma''"
    by (simp add: gof_terms_def example_fitter_def default_square_syst_errors_def)
  also have "\<dots> = Inr (Leaf [])"
    by (simp add: gof_terms_chi2gamma_unfold [OF sub n] keep_def)
  finally show ?thesis
    by (simp add: compute_gof_def example_bins_dead compute_gof_base_def fsum_def keep_def)
qed

text \<open>
  C10, amended.  \<open>compute_gof\<close> with the statistic \<open>'chi2gamma'\<close> makes no zero-sum
  check: at a bin whose selected expected responses sum to exactly zero it does not
  raise; it returns NaN when the mask selects at least one channel, and \<open>0.0\<close> when it
  selects none.
\<close>

theorem compute_gof_dead_bin:
  assumes "get_bin_indices self coordinates = Inr bins"
    and "nd_index (map Ix bins) (data self) = Inr (Leaf v)"
    and "length sel = n_points self" and "length v = length sel"
    and "length areas_observed = length sel" and "length sse = length sel"
    and "sum_list (keep sel v) = 0"
  shows "compute_gof self coordinates areas_observed (Some sel) (Some sse) ''chi2gamma''
           = Inr (Leaf (if keep sel v = [] then Fin 0 else NaN))"
proof -
  have len: "length (zip (keep sel areas_observed) (zip (keep sel v) (keep sel sse)))
               = length (keep sel v)"
    using assms(4-6) by (simp add: length_keep)
  have "gof_terms self (map Ix bins) areas_observed (Some sel) (Some sse) ''chi2gamma''
          = Inr (Leaf (replicate (length (keep sel v)) NaN))"
    using gof_terms_chi2gamma_unfold [OF assms(2,3,5,6)] dead_bin_terms [OF assms(7)] len
    by simp
  then show ?thesis
    using assms(1) by (simp add: compute_gof_def compute_gof_base_def fsum_replicate_NaN)
qed

theorem compute_gof_dead_bin_witness:
  "compute_gof example_fitter [1 / 2] [2, 6] (Some [True, True]) (Some [0, 0]) ''chi2gamma''
     = Inr (Leaf NaN)"
proof -
  have h2: "nd_index (map Ix [0]) (data example_fitter) = Inr (Leaf [0, 0])"
    by (simp add: example_fitter_def)
  have h3: "length [True, True] = n_points example_fitter"
    by (simp add: example_fitter_def)
  have h4: "length [0, 0 :: real] = length [True, True]" by simp
  have h5: "length [2, 6 :: real] = length [True, True]" by simp
  have h7: "sum_list (keep [True, True] [0, 0 :: real]) = 0" by (simp add: keep_def)
  show ?thesis
    using compute_gof_dead_bin [OF example_bins_dead h2 h3 h4 h5 h4 h7]
    by (simp add: keep_def)
qed

section \<open>Expected patterns and error classes\<close>

lemma traverse_error:
  "traverse f xs = Inl e \<Longrightarrow> \<exists>x \<in> set xs. f x = Inl e"
  by (induction xs arbitrary: e) (auto split: sum.splits)

lemma nd_index_error: "nd_index sels a = Inl e \<Longrightarrow> e = IndexError"
proof (induction sels arbitrary: a e)
  case Nil
  then show ?case by simp
next
  case (Cons s sels)
  show ?case
  proof (cases s)
    case (Ix i)
    with Cons show ?thesis
      by (auto simp: Let_def split: ndarray.splits if_splits)
  next
    case (Slice lo hi)
    with Cons.prems show ?thesis
      by (auto split: ndarray.splits sum.splits dest!: traverse_error dest: Cons.IH)
  qed
qed

lemma broadcast2_error: "broadcast2 f xs ys = Inl e \<Longrightarrow> e = ValueError"
  by (auto simp: broadcast2_def split: if_splits)

lemma gof_terms_error:
  assumes "gof_terms self bin_selection areas_observed pmt_selection square_syst_errors statistic
             = Inl e"
  shows "e = IndexError \<or> e = ValueError \<or> e = SyntaxError"
  using assms
  by (auto simp: gof_terms_def Let_def select_bins_def mask_select_def ne_evaluate_def
      default_square_syst_errors_def
      split: sum.splits option.splits if_splits scalar_or_array.splits
      dest: nd_index_error broadcast2_error)







text \<open>
  Where the bin indices of the coordinates resolve to a bin of the map, and the channel
  vector of that bin has only non-negative entries and a sum that is not zero,
  \<open>expected_pattern\<close> returns a vector over the same channels whose entries are all
  non-negative and sum to one.
\<close>

theorem expected_pattern_distribution:
  assumes "get_bin_indices self coordinates = Inr bins"
    and "nd_index (map Ix bins) (data self) = Inr (Leaf v)"
    and "sum_list v \<noteq> 0"
    and "\<forall>x \<in> set v. 0 \<le> x"
  shows "\<exists>p. expected_pattern self coordinates = Inr (Leaf p)
             \<and> length p = length v \<and> (\<forall>x \<in> set p. 0 \<le> x) \<and> sum_list p = 1"
proof -
  let ?s = "sum_list v"
  let ?p = "map (\<lambda>x. x / ?s) v"
  have run: "expected_pattern self coordinates = Inr (Leaf ?p)"
    using assms(1-3) by (simp add: expected_pattern_def)
  have "0 \<le> ?s"
    using assms(4) by (simp add: sum_list_nonneg)
  with assms(3) have pos: "0 < ?s" by simp
  have nonneg: "\<forall>x \<in> set ?p. 0 \<le> x"
    using assms(4) pos by auto
  have "sum_list ?p = (\<Sum>x\<leftarrow>v. x * inverse ?s)"
    by (simp add: divide_inverse)
  also have "\<dots> = ?s * inverse ?s"
    by (simp add: sum_list_mult_const)
  also have "\<dots> = 1"
    using assms(3) by simp
  finally have "sum_list ?p = 1" .
  with run nonneg show ?thesis by simp
qed

theorem expected_pattern_distribution_witness:
  "\<exists>p. expected_pattern example_fitter [3 / 2] = Inr (Leaf p)
       \<and> length p = length [1, 3 :: real] \<and> (\<forall>x \<in> set p. 0 \<le> x) \<and> sum_list p = 1"
proof -
  have h2: "nd_index (map Ix [1]) (data example_fitter) = Inr (Leaf [1, 3])"
    by (simp add: example_fitter_def)
  have h3: "sum_list [1, 3 :: real] \<noteq> 0" by simp
  have h4: "\<forall>x \<in> set [1, 3 :: real]. 0 \<le> x" by simp
  show ?thesis
    using expected_pattern_distribution [OF example_bins_live h2 h3 h4] .
qed

text \<open>
  C9.  The coordinate \<open>2\<close> is in range on the axis from 0 to 2, and the topmost bin
  of the small map, which includes the axis maximum, has the non-negative responses
  \<open>[1, 3]\<close> with the sum 4; yet \<open>expected_pattern\<close> at \<open>[2]\<close> returns no
  distribution: \<open>get_bin_indices\<close> gives the index 2, one past the last bin, and the
  lookup in the map raises \<open>IndexError\<close>.
\<close>

theorem expected_pattern_at_maximum:
  "in_range (coordinate_data example_fitter ! 0) 2
   \<and> get_bin_indices example_fitter [2] = Inr [2]
   \<and> expected_pattern example_fitter [2] = Inl IndexError
   \<and> nd_index [Ix 1] (data example_fitter) = Inr (Leaf [1, 3])"
proof -
  have bins: "get_bin_indices example_fitter [2] = Inr [2]"
    by (simp add: get_bin_indices_def get_bin_index_def list_get_def py_int_def
        example_fitter_def example_axes_def enumerate_eq_zip)
  have "nd_index (map Ix [2]) (data example_fitter) = Inl IndexError"
    by (simp add: example_fitter_def)
  then have "expected_pattern example_fitter [2] = Inl IndexError"
    by (simp add: expected_pattern_def bins)
  with bins show ?thesis
    by (simp add: in_range_def example_fitter_def example_axes_def)
qed

section \<open>Grid evaluation\<close>

lemma compute_gof_base_error:
  assumes "compute_gof_base self bin_selection areas_observed pmt_selection square_syst_errors
             statistic = Inl e"
  shows "e = IndexError \<or> e = ValueError \<or> e = SyntaxError"
  using assms gof_terms_error
  by (fastforce simp: compute_gof_base_def split: sum.splits)

lemma window_edges_resolve:
  assumes "i < length cds" and "axis_ok (cds ! i)" and "in_range (cds ! i) x" and "0 \<le> g"
  shows "\<exists>start stop.
           get_bin_index cds (max (x - g / 2) (minimum (cds ! i))) i = Inr start
         \<and> get_bin_index cds (min (x + g / 2) (maximum (cds ! i))) i = Inr stop"
proof -
  have "minimum (cds ! i) \<le> max (x - g / 2) (minimum (cds ! i))"
    and "max (x - g / 2) (minimum (cds ! i)) \<le> maximum (cds ! i)"
    and "minimum (cds ! i) \<le> min (x + g / 2) (maximum (cds ! i))"
    and "min (x + g / 2) (maximum (cds ! i)) \<le> maximum (cds ! i)"
    using assms(3,4) by (auto simp: in_range_def)
  then show ?thesis
    using get_bin_index_in_range [OF assms(1,2)] by blast
qed

lemma grid_selection_outcome:
  assumes "0 \<le> g"
    and "\<forall>(i, x) \<in> set ixs. i < length (coordinate_data self) \<and> axis_ok (coordinate_data self ! i)"
  shows "((\<exists>m. grid_selection self g ixs = Inl (CoordinateOutOfRangeException m))
            \<longleftrightarrow> (\<exists>(i, x) \<in> set ixs. \<not> in_range (coordinate_data self ! i) x))
         \<and> ((\<forall>(i, x) \<in> set ixs. in_range (coordinate_data self ! i) x)
            \<longrightarrow> (\<exists>r. grid_selection self g ixs = Inr r))"
  using assms(2)
proof (induction ixs)
  case Nil
  then show ?case by simp
next
  case (Cons p ixs)
  obtain i x where p: "p = (i, x)" by (cases p)
  let ?cd = "coordinate_data self ! i"
  from Cons.prems p have i: "i < length (coordinate_data self)" and ok: "axis_ok ?cd"
    by auto
  from Cons.prems have rest:
    "\<forall>(i, x) \<in> set ixs. i < length (coordinate_data self) \<and> axis_ok (coordinate_data self ! i)"
    by auto
  note IH = Cons.IH [OF rest]
  show ?case
  proof (cases "in_range ?cd x")
    case False
    then show ?thesis
      using i p by (auto simp: list_get_def in_range_def)
  next
    case True
    from window_edges_resolve [OF i ok True assms(1)] obtain start stop where
      edges: "get_bin_index (coordinate_data self) (max (x - g / 2) (minimum ?cd)) i = Inr start"
        "get_bin_index (coordinate_data self) (min (x + g / 2) (maximum ?cd)) i = Inr stop"
      by blast
    have step: "grid_selection self g (p # ixs) =
                  (case grid_selection self g ixs of
                     Inl e \<Rightarrow> Inl e
                   | Inr (bin_selection, lowest_bins) \<Rightarrow>
                       Inr (Slice start (stop + 1) # bin_selection, start # lowest_bins))"
      using i True edges p by (simp add: list_get_def in_range_def)
    have a: "(\<exists>m. grid_selection self g (p # ixs) = Inl (CoordinateOutOfRangeException m))
               \<longleftrightarrow> (\<exists>m. grid_selection self g ixs = Inl (CoordinateOutOfRangeException m))"
      unfolding step by (auto split: sum.splits prod.splits)
    have b: "(\<exists>r. grid_selection self g ixs = Inr r)
               \<Longrightarrow> (\<exists>r. grid_selection self g (p # ixs) = Inr r)"
      unfolding step by (auto split: sum.splits prod.splits)
    show ?thesis
      using IH True p a b by auto
  qed
qed

lemma compute_gof_grid_out_of_range:
  "(\<exists>m. compute_gof_grid self center g ao sel sse st = Inl (CoordinateOutOfRangeException m))
     \<longleftrightarrow> (\<exists>m. grid_selection self g (enumerate 0 center) = Inl (CoordinateOutOfRangeException m))"
  by (auto simp: compute_gof_grid_def split: sum.splits prod.splits
      dest: compute_gof_base_error)

text \<open>
  C6.  For a fitter whose axes are all configured, a centre with one coordinate per axis
  and a grid width \<open>grid_size \<ge> 0\<close>: \<open>compute_gof_grid\<close> raises
  \<open>CoordinateOutOfRangeException\<close> if and only if some coordinate of the centre lies
  outside \<open>[minimum, maximum]\<close> of its axis; when every coordinate is in range, the
  clamped window edges all resolve to bin indices and the bin selection is built without
  any error.
\<close>

theorem grid_out_of_range_iff:
  assumes "0 \<le> grid_size"
    and "length center = length (coordinate_data self)"
    and "\<forall>cd \<in> set (coordinate_data self). axis_ok cd"
  shows "((\<exists>m. compute_gof_grid self center grid_size ao sel sse st
                = Inl (CoordinateOutOfRangeException m))
            \<longleftrightarrow> (\<exists>i < length center. \<not> in_range (coordinate_data self ! i) (center ! i)))
         \<and> ((\<forall>i < length center. in_range (coordinate_data self ! i) (center ! i))
            \<longrightarrow> (\<exists>r. grid_selection self grid_size (enumerate 0 center) = Inr r))"
proof -
  have axes: "\<forall>(i, x) \<in> set (enumerate 0 center).
                i < length (coordinate_data self) \<and> axis_ok (coordinate_data self ! i)"
    using assms(2,3) by (auto simp: in_set_enumerate_eq)
  have bad: "(\<exists>(i, x) \<in> set (enumerate 0 center). \<not> in_range (coordinate_data self ! i) x)
               \<longleftrightarrow> (\<exists>i < length center. \<not> in_range (coordinate_data self ! i) (center ! i))"
    by (force simp: in_set_enumerate_eq)
  have good: "(\<forall>(i, x) \<in> set (enumerate 0 center). in_range (coordinate_data self ! i) x)
               \<longleftrightarrow> (\<forall>i < length center. in_range (coordinate_data self ! i) (center ! i))"
    using bad by blast
  show ?thesis
    using grid_selection_outcome [OF assms(1) axes]
    unfolding compute_gof_grid_out_of_range bad good by blast
qed

theorem grid_out_of_range_iff_witness:
  "(\<exists>m. compute_gof_grid example_fitter [3] 1 [2, 6] None None ''chi2gamma''
          = Inl (CoordinateOutOfRangeException m))
   \<and> (\<exists>r. grid_selection example_fitter 2 (enumerate 0 [1]) = Inr r)"
proof -
  have h1: "(0::real) \<le> 1" and h1': "(0::real) \<le> 2" by simp_all
  have h2: "length [3 :: real] = length (coordinate_data example_fitter)"
    and h2': "length [1 :: real] = length (coordinate_data example_fitter)"
    by (simp_all add: example_fitter_def example_axes_def)
  have h3: "\<forall>cd \<in> set (coordinate_data example_fitter). axis_ok cd"
    by (simp add: example_fitter_def example_axes_def axis_ok_def)
  have out: "\<exists>i < length [3 :: real]. \<not> in_range (coordinate_data example_fitter ! i) ([3] ! i)"
    by (simp add: in_range_def example_fitter_def example_axes_def)
  have inside: "\<forall>i < length [1 :: real]. in_range (coordinate_data example_fitter ! i) ([1] ! i)"
    by (simp add: in_range_def example_fitter_def example_axes_def)
  show ?thesis
    using grid_out_of_range_iff [OF h1 h2 h3, of "[2, 6]" None None "''chi2gamma''"]
      grid_out_of_range_iff [OF h1' h2' h3, of "[2, 6]" None None "''chi2gamma''"]
      out inside
    by blast
qed

text \<open>
  C7.  At a centre on the upper edge of its axis the degenerate grid and the point
  evaluation disagree: with \<open>grid_size = 0\<close> \<open>compute_gof_grid\<close> returns a grid
  without any entry, and \<open>compute_gof\<close> at the same centre raises \<open>IndexError\<close>.
\<close>

theorem degenerate_grid_at_maximum:
  "compute_gof_grid example_fitter [2] 0 [2, 6] None None ''chi2gamma'' = Inr (Node [], [2])
   \<and> compute_gof example_fitter [2] [2, 6] None None ''chi2gamma'' = Inl IndexError
   \<and> in_range (coordinate_data example_fitter ! 0) 2"
proof -
  have sel: "grid_selection example_fitter 0 (enumerate 0 [2]) = Inr ([Slice 2 3], [2])"
    by (simp add: enumerate_eq_zip list_get_def get_bin_index_def py_int_def
        example_fitter_def example_axes_def)
  have sub: "nd_index [Slice 2 3] (data example_fitter) = Inr (Node [])"
    by (simp add: example_fitter_def py_slice_def slice_bound_def)
  have n: "length [True, True] = n_points example_fitter"
    by (simp add: example_fitter_def)
  have "gof_terms example_fitter [Slice 2 3] [2, 6] None None ''chi2gamma''
          = gof_terms example_fitter [Slice 2 3] [2, 6] (Some [True, True]) (Some [0, 0])
              ''chi2gamma''"
    by (simp add: gof_terms_def example_fitter_def default_square_syst_errors_def)
  also have "\<dots> = Inr (Node [])"
    by (simp add: gof_terms_chi2gamma_unfold [OF sub n])
  finally have terms: "gof_terms example_fitter [Slice 2 3] [2, 6] None None ''chi2gamma''
                         = Inr (Node [])" .
  have grid: "compute_gof_grid example_fitter [2] 0 [2, 6] None None ''chi2gamma''
                = Inr (Node [], [2])"
    unfolding compute_gof_grid_def sel by (simp add: compute_gof_base_def terms)
  have bins: "get_bin_indices example_fitter [2] = Inr [2]"
    by (simp add: get_bin_indices_def get_bin_index_def list_get_def py_int_def
        example_fitter_def example_axes_def enumerate_eq_zip)
  have fields: "default_pmt_selection example_fitter = [True, True]"
    "default_errors example_fitter = Scalar 0"
    by (simp_all add: example_fitter_def)
  have no_bin: "select_bins example_fitter [Ix 2] pmts = Inl IndexError" for pmts
    by (simp add: select_bins_def example_fitter_def)
  have point: "compute_gof example_fitter [2] [2, 6] None None ''chi2gamma'' = Inl IndexError"
    by (simp add: compute_gof_def bins compute_gof_base_def gof_terms_def no_bin fields
        mask_select_def default_square_syst_errors_def)
  from grid point show ?thesis
    by (simp add: in_range_def example_fitter_def example_axes_def)
qed

section \<open>Arrays in row-major order\<close>

lemma regular_Node:
  "regular (n # ns) (Node xs) \<longleftrightarrow> length xs = n \<and> (\<forall>x \<in> set xs. regular ns x)"
  by (simp add: list_all_iff)


lemma regular_Nil_cases:
  assumes "regular [] a"
  obtains x where "a = Leaf x"
  using assms by (cases a) auto


lemma flatten_map: "flatten (map_ndarray f a) = map f (flatten a)"
  by (induction a) (auto simp: map_concat cong: map_cong)






section \<open>The first minimum\<close>











section \<open>The grid minimum\<close>















end
